theory Spec2Isabelle
  imports Main "HOL-Library.Sublist"
begin

section \<open>Data model (app/models.py)\<close>

datatype Severity = P1 | P2 | P3

datatype IncidentStatus = investigating | monitoring | resolved

datatype TimelineEventType = human_update | status_change | ai_tag | ai_summary | system

text \<open>
  The payload of an event is a Python dict from strings to values. The values that the
  program stores are strings, lists of strings and status members; the dict is kept as an
  association list in the order of the dict literal of the source.
\<close>

datatype pvalue = VStr string | VList "string list" | VStatus IncidentStatus

type_synonym payload = "(string \<times> pvalue) list"

text \<open>
  \<open>event_id\<close> and \<open>created_at\<close> have default factories (\<open>uuid4\<close> and \<open>utc_now\<close>):
  their values come from the environment. A \<open>stamp\<close> is one such pair, handed to
  every construction of an event; time is a natural number.
\<close>

record stamp =
  stamp_id :: string
  stamp_time :: nat

record TimelineEvent =
  event_id :: string
  incident_id :: int
  etype :: TimelineEventType
  created_at :: nat
  payload :: payload

definition TimelineEvent_new :: "stamp \<Rightarrow> int \<Rightarrow> TimelineEventType \<Rightarrow> payload \<Rightarrow> TimelineEvent" where
  "TimelineEvent_new st iid ty p =
     \<lparr>event_id = stamp_id st, incident_id = iid, etype = ty,
      created_at = stamp_time st, payload = p\<rparr>"

record Incident =
  inc_id :: int
  title :: string
  severity :: Severity
  status :: IncidentStatus
  inc_created_at :: nat
  timeline :: "TimelineEvent list"

text \<open>
  \<open>Incident(id=..., title=..., severity=...)\<close>: the status defaults to
  \<open>IncidentStatus.investigating\<close> and the timeline to the empty list.
\<close>

definition Incident_new :: "nat \<Rightarrow> int \<Rightarrow> string \<Rightarrow> Severity \<Rightarrow> Incident" where
  "Incident_new now iid t sev =
     \<lparr>inc_id = iid, title = t, severity = sev, status = investigating,
      inc_created_at = now, timeline = []\<rparr>"

text \<open>
  Both enums are declared \<open>class ...(str, Enum)\<close>, and the status of an incident is
  always a member of the enum (the default of the field, or the validated field of the
  request). For a member of such a class \<open>str(member)\<close> is \<open>Enum.__str__\<close>: the class
  name, a dot and the member name, as in \<open>IncidentStatus.resolved\<close>. The mixed-in
  \<open>str\<close> type gives the member its value under \<open>==\<close> and \<open>.value\<close>, not under
  \<open>str()\<close>; the class whose \<open>str()\<close> is the bare value is \<open>enum.StrEnum\<close>, which the
  source does not use. \<open>str_IncidentStatus\<close> is \<open>str(inc.status)\<close>, and
  \<open>format_Severity\<close> is the rendering of a severity inside an f-string (Python 3.11
  and later; earlier interpreters print the bare value there, and no statement below
  depends on it).
\<close>

fun str_IncidentStatus :: "IncidentStatus \<Rightarrow> string" where
  "str_IncidentStatus investigating = ''IncidentStatus.investigating''"
| "str_IncidentStatus monitoring = ''IncidentStatus.monitoring''"
| "str_IncidentStatus resolved = ''IncidentStatus.resolved''"

fun format_Severity :: "Severity \<Rightarrow> string" where
  "format_Severity P1 = ''Severity.P1''"
| "format_Severity P2 = ''Severity.P2''"
| "format_Severity P3 = ''Severity.P3''"

section \<open>The incident store (app/store.py)\<close>

record IncidentStore =
  next_id :: int
  incidents :: "int \<rightharpoonup> Incident"

definition IncidentStore_init :: IncidentStore where
  "IncidentStore_init = \<lparr>next_id = 1, incidents = Map.empty\<rparr>"

datatype error = KeyError

text \<open>
  \<open>create_incident\<close>: the incident takes \<open>_next_id\<close>, the counter is incremented, one
  \<open>system\<close> event is appended to the fresh timeline, and the incident is stored and
  returned. \<open>now\<close> is the creation time of the incident, \<open>st\<close> the stamp of its event.
\<close>

definition create_incident ::
  "IncidentStore \<Rightarrow> nat \<Rightarrow> stamp \<Rightarrow> string \<Rightarrow> Severity \<Rightarrow> IncidentStore \<times> Incident" where
  "create_incident s now st t sev =
     (let iid = next_id s;
          inc0 = Incident_new now iid t sev;
          inc = inc0\<lparr>timeline := timeline inc0 @
                  [TimelineEvent_new st iid system
                     [(''message'', VStr (''Incident created: '' @ t @ '' ('' @ format_Severity sev @ '')''))]]\<rparr>
      in (s\<lparr>next_id := iid + 1, incidents := (incidents s)(iid \<mapsto> inc)\<rparr>, inc))"

text \<open>\<open>get_incident\<close> is \<open>dict.get\<close>: \<open>None\<close> for an unknown identifier.\<close>

definition get_incident :: "IncidentStore \<Rightarrow> int \<Rightarrow> Incident option" where
  "get_incident s iid = incidents s iid"

text \<open>
  \<open>add_event\<close> and \<open>update_status\<close> raise \<open>KeyError\<close> for an unknown identifier, before
  any write, and otherwise mutate the stored incident in place and return it. Each returns
  the store after the call together with the exception or the returned incident.
\<close>

definition add_event ::
  "IncidentStore \<Rightarrow> int \<Rightarrow> TimelineEvent \<Rightarrow> IncidentStore \<times> (error + Incident)" where
  "add_event s iid ev =
     (case incidents s iid of
        None \<Rightarrow> (s, Inl KeyError)
      | Some inc \<Rightarrow>
          (let inc' = inc\<lparr>timeline := timeline inc @ [ev]\<rparr>
           in (s\<lparr>incidents := (incidents s)(iid \<mapsto> inc')\<rparr>, Inr inc')))"

definition update_status ::
  "IncidentStore \<Rightarrow> stamp \<Rightarrow> int \<Rightarrow> IncidentStatus \<Rightarrow> IncidentStore \<times> (error + Incident)" where
  "update_status s st iid new_status =
     (case incidents s iid of
        None \<Rightarrow> (s, Inl KeyError)
      | Some inc \<Rightarrow>
          (let old_status = status inc;
               inc' = inc\<lparr>status := new_status,
                          timeline := timeline inc @
                            [TimelineEvent_new st iid status_change
                               [(''from'', VStatus old_status), (''to'', VStatus new_status)]]\<rparr>
           in (s\<lparr>incidents := (incidents s)(iid \<mapsto> inc')\<rparr>, Inr inc')))"

section \<open>The room manager (app/websocket_manager.py)\<close>

text \<open>
  \<open>_rooms\<close> is a dict from incident identifiers to sets of connections. A connection is
  a value of any type \<open>'c\<close>; the handshake \<open>websocket.accept()\<close> precedes the
  registration and does not touch the dict.
\<close>

type_synonym 'c rooms = "int \<rightharpoonup> 'c set"

definition WebSocketRoomManager_init :: "'c rooms" where
  "WebSocketRoomManager_init = Map.empty"

definition connect :: "'c rooms \<Rightarrow> int \<Rightarrow> 'c \<Rightarrow> 'c rooms" where
  "connect rooms iid ws =
     (let rooms1 = (case rooms iid of None \<Rightarrow> rooms(iid \<mapsto> {}) | Some r \<Rightarrow> rooms)
      in case rooms1 iid of None \<Rightarrow> rooms1 | Some r \<Rightarrow> rooms1(iid \<mapsto> insert ws r))"

definition disconnect :: "'c rooms \<Rightarrow> int \<Rightarrow> 'c \<Rightarrow> 'c rooms" where
  "disconnect rooms iid ws =
     (case rooms iid of
        None \<Rightarrow> rooms
      | Some r \<Rightarrow>
          (let r' = r - {ws}
           in if r' = {} then rooms(iid := None) else rooms(iid \<mapsto> r')))"

text \<open>
  \<open>broadcast\<close> works in three steps. Under the lock it copies the room,
  \<open>list(self._rooms.get(incident_id, set()))\<close>; \<open>room_members\<close> is the set that is
  copied, and the list \<open>sockets\<close> of the later definitions is its enumeration, in the
  order of Python's set iteration, which the language leaves open. Without the lock it
  sends the message to each socket of the list, collecting in \<open>dead\<close> the sockets whose
  \<open>send_json\<close> raised an \<open>Exception\<close>. If \<open>dead\<close> is not empty it takes the lock again
  and discards the dead sockets from the room as it is by then, deleting the room when it
  has become empty.

  A send has one of three ends: it returns, it raises an \<open>Exception\<close>, which
  \<open>except Exception\<close> catches, or it raises a \<open>BaseException\<close> that is no \<open>Exception\<close>
  (\<open>asyncio.CancelledError\<close> when the task is cancelled), which nothing catches: the
  loop and the broadcast end there with that exception, and no pruning takes place.
  \<open>send ws\<close> is the end of the send to \<open>ws\<close>.

  The sends are awaits, so other tasks may register and remove connections while they
  go on; \<open>during\<close> is what the other tasks do to the rooms between the copy and the end
  of the sends. An empty copy returns at once.
\<close>

definition room_members :: "'c rooms \<Rightarrow> int \<Rightarrow> 'c set" where
  "room_members rooms iid = (case rooms iid of None \<Rightarrow> {} | Some r \<Rightarrow> r)"

datatype send_end = Delivered | Failed | Aborted

text \<open>
  The sending loop returns the deliveries that succeeded, each a connection with the
  message it received, the list \<open>dead\<close>, and whether a send ended the loop with a
  \<open>BaseException\<close>; the sockets after that send are not sent to.
\<close>

fun send_loop ::
  "('c \<Rightarrow> send_end) \<Rightarrow> 'm \<Rightarrow> 'c list \<Rightarrow> ('c \<times> 'm) list \<times> 'c list \<times> bool" where
  "send_loop send m [] = ([], [], False)"
| "send_loop send m (ws # rest) =
     (case send ws of
        Delivered \<Rightarrow>
          (let (sent, dead, aborted) = send_loop send m rest in ((ws, m) # sent, dead, aborted))
      | Failed \<Rightarrow>
          (let (sent, dead, aborted) = send_loop send m rest in (sent, ws # dead, aborted))
      | Aborted \<Rightarrow> ([], [], True))"

fun discard_loop :: "'c rooms \<Rightarrow> int \<Rightarrow> 'c list \<Rightarrow> 'c rooms" where
  "discard_loop rooms iid [] = rooms"
| "discard_loop rooms iid (ws # rest) =
     discard_loop (case rooms iid of None \<Rightarrow> rooms | Some r \<Rightarrow> rooms(iid \<mapsto> r - {ws})) iid rest"

definition prune_dead :: "'c rooms \<Rightarrow> int \<Rightarrow> 'c list \<Rightarrow> 'c rooms" where
  "prune_dead rooms iid dead =
     (let rooms1 = discard_loop rooms iid dead
      in if rooms1 iid = Some {} then rooms1(iid := None) else rooms1)"

text \<open>
  The result of a broadcast: the rooms when it ends, the deliveries, and whether it ended
  by raising the \<open>BaseException\<close> of a send instead of returning.
\<close>

record ('c, 'm) broadcast_result =
  b_rooms :: "'c rooms"
  b_sent :: "('c \<times> 'm) list"
  b_raised :: bool

definition broadcast ::
  "'c rooms \<Rightarrow> ('c \<Rightarrow> send_end) \<Rightarrow> 'c list \<Rightarrow> ('c rooms \<Rightarrow> 'c rooms) \<Rightarrow> int \<Rightarrow> 'm
     \<Rightarrow> ('c, 'm) broadcast_result" where
  "broadcast rooms send sockets during iid m =
     (if sockets = [] then \<lparr>b_rooms = rooms, b_sent = [], b_raised = False\<rparr>
      else
        (let (sent, dead, aborted) = send_loop send m sockets;
             rooms1 = during rooms
         in if aborted then \<lparr>b_rooms = rooms1, b_sent = sent, b_raised = True\<rparr>
            else if dead \<noteq> []
            then \<lparr>b_rooms = prune_dead rooms1 iid dead, b_sent = sent, b_raised = False\<rparr>
            else \<lparr>b_rooms = rooms1, b_sent = sent, b_raised = False\<rparr>))"

text \<open>
  The operations that change the room dict, for runs of the manager from its initial
  state: registrations, removals, and the pruning passes of broadcasts (a pass happens
  only for a non-empty \<open>dead\<close>).
\<close>

datatype 'c room_op = Connect int 'c | Disconnect int 'c | Prune int "'c list"

fun apply_room_op :: "'c rooms \<Rightarrow> 'c room_op \<Rightarrow> 'c rooms" where
  "apply_room_op rooms (Connect iid ws) = connect rooms iid ws"
| "apply_room_op rooms (Disconnect iid ws) = disconnect rooms iid ws"
| "apply_room_op rooms (Prune iid dead) = (if dead \<noteq> [] then prune_dead rooms iid dead else rooms)"

definition run_room_ops :: "'c room_op list \<Rightarrow> 'c rooms" where
  "run_room_ops ops = foldl apply_room_op WebSocketRoomManager_init ops"

definition no_empty_room :: "'c rooms \<Rightarrow> bool" where
  "no_empty_room rooms = (\<forall>iid. rooms iid \<noteq> Some {})"

section \<open>The enrichment worker (app/processor.py)\<close>

record HumanUpdateJob =
  job_incident_id :: int
  human_event_id :: string
  message :: string

text \<open>
  Strings are lists of HOL characters, one character per code point, which covers the
  code points below 256. On these \<open>str.lower()\<close> maps \<open>A\<close>..\<open>Z\<close> and the capital
  letters of Latin-1 (192..222 without the multiplication sign 215) to the letter 32
  places further and leaves every other code point as it is. \<open>k in s\<close> on strings is
  the contiguous occurrence \<^const>\<open>sublist\<close>.
\<close>

definition lower_char :: "char \<Rightarrow> char" where
  "lower_char c =
     (let n = (of_char c :: nat)
      in if (65 \<le> n \<and> n \<le> 90) \<or> (192 \<le> n \<and> n \<le> 222 \<and> n \<noteq> 215)
         then char_of (n + 32) else c)"

definition lower :: "string \<Rightarrow> string" where
  "lower s = map lower_char s"

text \<open>
  Stage A: the four checks of the worker in their order, each appending its tag, and the
  default \<open>["general"]\<close> when nothing was appended.
\<close>

definition stage_a_tags :: "string \<Rightarrow> string list" where
  "stage_a_tags msg =
     (let msg_lower = lower msg;
          tags0 = [];
          tags1 = (if sublist ''db'' msg_lower \<or> sublist ''database'' msg_lower
                   then tags0 @ [''database''] else tags0);
          tags2 = (if sublist ''timeout'' msg_lower then tags1 @ [''timeout''] else tags1);
          tags3 = (if sublist ''payment'' msg_lower \<or> sublist ''checkout'' msg_lower
                   then tags2 @ [''payments''] else tags2);
          tags4 = (if sublist ''latency'' msg_lower then tags3 @ [''latency''] else tags3)
      in if tags4 = [] then [''general''] else tags4)"

text \<open>Stage B: \<open>f"Summary: {job.message[:160]}"\<close>.\<close>

definition stage_b_summary :: "string \<Rightarrow> string" where
  "stage_b_summary msg = ''Summary: '' @ take 160 msg"

text \<open>
  \<open>fallback_summary\<close> is defined in the module and called nowhere. \<open>str.strip()\<close> and
  \<open>str.rstrip()\<close> remove white space at the ends; below 256 the white space of Python
  is 9..13, 28..32, 133 and 160. \<open>service\<close> is an optional string, and the tests
  \<open>if service\<close> and \<open>if keywords\<close> hold for a non-empty string and a non-empty list.
\<close>

definition is_space :: "char \<Rightarrow> bool" where
  "is_space c =
     (let n = (of_char c :: nat)
      in (9 \<le> n \<and> n \<le> 13) \<or> (28 \<le> n \<and> n \<le> 32) \<or> n = 133 \<or> n = 160)"

definition rstrip :: "string \<Rightarrow> string" where
  "rstrip s = rev (dropWhile is_space (rev s))"

definition strip :: "string \<Rightarrow> string" where
  "strip s = rstrip (dropWhile is_space s)"

fun join :: "string \<Rightarrow> string list \<Rightarrow> string" where
  "join sep [] = []"
| "join sep [x] = x"
| "join sep (x # y # ys) = x @ sep @ join sep (y # ys)"

definition fallback_summary :: "string \<Rightarrow> string option \<Rightarrow> string list \<Rightarrow> string" where
  "fallback_summary msg service keywords =
     (let base0 = strip msg;
          base = (if length base0 > 140 then rstrip (take 140 base0) @ ''...'' else base0);
          has_service = (case service of None \<Rightarrow> False | Some sv \<Rightarrow> sv \<noteq> []);
          signals = join '', '' (take 6 keywords)
      in if has_service \<and> keywords \<noteq> []
         then ''Update about '' @ the service @ ''. Signals: '' @ signals @ ''. Details: '' @ base
         else if has_service then ''Update about '' @ the service @ '': '' @ base
         else if keywords \<noteq> []
         then ''Incident update signals: '' @ signals @ ''. Details: '' @ base
         else ''Incident update: '' @ base)"

text \<open>
  One iteration of \<open>worker_loop\<close>, for one job. The worker fetches the incident and
  leaves the job (\<open>continue\<close>) when there is none or when
  \<open>str(inc.status) == "resolved"\<close>; otherwise it appends the \<open>ai_tag\<close> event and
  broadcasts it, sleeps, appends the \<open>ai_summary\<close> event and broadcasts it. An
  exception of \<open>add_event\<close> is caught by \<open>except Exception\<close> and printed, and the rest of
  the iteration is skipped. \<open>ws_manager.broadcast\<close> catches every \<open>Exception\<close> of its
  sends; the worker's calls of it are recorded as pairs of the incident identifier and the
  event that is sent, and what a call does to the rooms is \<^const>\<open>broadcast\<close>. The
  iteration is that of a worker whose task is not cancelled: a cancellation is a
  \<open>BaseException\<close> raised at an await, which neither the broadcast nor the worker
  catches, and it ends the task.

  Other tasks run only where the worker awaits. Between the fetch and the append of
  Stage A there is no await; between the append of Stage A and the append of Stage B
  there are two, the broadcast and the sleep. \<open>during\<close> is what the other tasks do to
  the store there.
\<close>

datatype outcome = Discarded | Completed | Logged error

record worker_result =
  w_store :: IncidentStore
  w_broadcasts :: "(int \<times> TimelineEvent) list"
  w_outcome :: outcome

definition ai_tag_event :: "stamp \<Rightarrow> HumanUpdateJob \<Rightarrow> TimelineEvent" where
  "ai_tag_event st job =
     TimelineEvent_new st (job_incident_id job) ai_tag
       [(''tags'', VList (stage_a_tags (message job))),
        (''source_event_id'', VStr (human_event_id job))]"

definition ai_summary_event :: "stamp \<Rightarrow> HumanUpdateJob \<Rightarrow> TimelineEvent" where
  "ai_summary_event st job =
     TimelineEvent_new st (job_incident_id job) ai_summary
       [(''summary'', VStr (stage_b_summary (message job))),
        (''source_event_id'', VStr (human_event_id job))]"

definition worker_stage_b ::
  "IncidentStore \<Rightarrow> (int \<times> TimelineEvent) list \<Rightarrow> HumanUpdateJob \<Rightarrow> stamp \<Rightarrow> worker_result" where
  "worker_stage_b s sent job st_b =
     (let ev = ai_summary_event st_b job
      in case add_event s (job_incident_id job) ev of
           (s', Inl e) \<Rightarrow> \<lparr>w_store = s', w_broadcasts = sent, w_outcome = Logged e\<rparr>
         | (s', Inr inc) \<Rightarrow>
             \<lparr>w_store = s', w_broadcasts = sent @ [(job_incident_id job, ev)],
              w_outcome = Completed\<rparr>)"

definition worker_job ::
  "IncidentStore \<Rightarrow> HumanUpdateJob \<Rightarrow> stamp \<Rightarrow> (IncidentStore \<Rightarrow> IncidentStore) \<Rightarrow> stamp
     \<Rightarrow> worker_result" where
  "worker_job s job st_a during st_b =
     (case get_incident s (job_incident_id job) of
        None \<Rightarrow> \<lparr>w_store = s, w_broadcasts = [], w_outcome = Discarded\<rparr>
      | Some inc \<Rightarrow>
          if str_IncidentStatus (status inc) = ''resolved''
          then \<lparr>w_store = s, w_broadcasts = [], w_outcome = Discarded\<rparr>
          else
            (let ev = ai_tag_event st_a job
             in case add_event s (job_incident_id job) ev of
                  (s1, Inl e) \<Rightarrow> \<lparr>w_store = s1, w_broadcasts = [], w_outcome = Logged e\<rparr>
                | (s1, Inr inc1) \<Rightarrow>
                    worker_stage_b (during s1) [(job_incident_id job, ev)] job st_b))"

text \<open>The worker alone: nothing else touches the store while it awaits.\<close>

definition process_job :: "IncidentStore \<Rightarrow> HumanUpdateJob \<Rightarrow> stamp \<Rightarrow> stamp \<Rightarrow> worker_result" where
  "process_job s job st_a st_b = worker_job s job st_a (\<lambda>s1. s1) st_b"

section \<open>The status endpoint (app/main.py)\<close>

text \<open>
  \<open>PATCH /incidents/{id}/status\<close>: \<open>store.update_status\<close>, with \<open>KeyError\<close> turned into
  the response 404; then, when \<open>str(inc.status) == "resolved"\<close>, a \<open>system\<close> event is
  appended and broadcast. \<open>inc\<close> is the stored object, so the response shows the
  incident as the store holds it at the end. A \<open>KeyError\<close> of the second store call
  would not be caught (response 500).
\<close>

datatype http_error = HTTP404 | HTTP500

definition update_incident_status ::
  "IncidentStore \<Rightarrow> stamp \<Rightarrow> stamp \<Rightarrow> int \<Rightarrow> IncidentStatus
     \<Rightarrow> IncidentStore \<times> (int \<times> TimelineEvent) list \<times> (http_error + Incident)" where
  "update_incident_status s st st_sys iid new_status =
     (case update_status s st iid new_status of
        (s1, Inl e) \<Rightarrow> (s1, [], Inl HTTP404)
      | (s1, Inr inc) \<Rightarrow>
          if str_IncidentStatus (status inc) = ''resolved''
          then
            (let system_event = TimelineEvent_new st_sys iid system
                   [(''message'', VStr ''Incident resolved. Processing stopped.'')]
             in case add_event s1 iid system_event of
                  (s2, Inl e) \<Rightarrow> (s2, [], Inl HTTP500)
                | (s2, Inr inc2) \<Rightarrow> (s2, [(iid, system_event)], Inr inc2))
          else (s1, [], Inr inc))"

section \<open>Tag derivation in the words of the specification\<close>

text \<open>
  The specification describes Stage A as a scan of the lower-cased message for the
  keywords of a fixed vocabulary, by substring, every match contributing its tag in the
  order in which the vocabulary is checked, and \<open>[general]\<close> when nothing matches.
  \<open>vocabulary\<close> lists the tags with their keywords in the order of the worker's checks,
  and \<open>spec_tags\<close> is that description.
\<close>

definition vocabulary :: "(string \<times> string list) list" where
  "vocabulary =
     [(''database'', [''db'', ''database'']),
      (''timeout'', [''timeout'']),
      (''payments'', [''payment'', ''checkout'']),
      (''latency'', [''latency''])]"

definition spec_tags :: "string \<Rightarrow> string list" where
  "spec_tags msg =
     (let found = map fst (filter (\<lambda>(tag, keys). \<exists>k \<in> set keys. sublist k (lower msg)) vocabulary)
      in if found = [] then [''general''] else found)"

section \<open>Example states\<close>

text \<open>
  A store with one incident, numbered 1 and under investigation; the same store after
  the incident was resolved; a job for that incident; and a room manager with two
  connections in room 1 and one in room 2.
\<close>

definition example_store :: IncidentStore where
  "example_store =
     fst (create_incident IncidentStore_init 0 \<lparr>stamp_id = ''e0'', stamp_time = 0\<rparr>
            ''Checkout outage'' P1)"

definition resolved_store :: IncidentStore where
  "resolved_store =
     fst (update_status example_store \<lparr>stamp_id = ''e1'', stamp_time = 1\<rparr> 1 resolved)"

definition example_job :: HumanUpdateJob where
  "example_job =
     \<lparr>job_incident_id = 1, human_event_id = ''h1'',
      message = ''DB timeout on checkout-service, latency spiking''\<rparr>"

definition example_rooms :: "nat rooms" where
  "example_rooms = connect (connect (connect WebSocketRoomManager_init 1 10) 1 11) 2 12"

section \<open>Properties of the store\<close>

text \<open>
  C10. The incident returned by \<open>create_incident\<close> has status \<open>investigating\<close> and a
  timeline of exactly one event, of type \<open>system\<close>; the stored incident is the returned
  one.
\<close>

theorem create_incident_fresh:
  "status (snd (create_incident s now st t sev)) = investigating \<and>
   length (timeline (snd (create_incident s now st t sev))) = 1 \<and>
   map etype (timeline (snd (create_incident s now st t sev))) = [system] \<and>
   incidents (fst (create_incident s now st t sev)) (next_id s)
     = Some (snd (create_incident s now st t sev))"
  by (simp add: create_incident_def Incident_new_def TimelineEvent_new_def Let_def)

lemma add_event_absent:
  "incidents s iid = None \<Longrightarrow> add_event s iid ev = (s, Inl KeyError)"
  by (simp add: add_event_def)

lemma add_event_present:
  "incidents s iid = Some inc \<Longrightarrow>
     add_event s iid ev =
       (s\<lparr>incidents := (incidents s)(iid \<mapsto> inc\<lparr>timeline := timeline inc @ [ev]\<rparr>)\<rparr>,
        Inr (inc\<lparr>timeline := timeline inc @ [ev]\<rparr>))"
  by (simp add: add_event_def Let_def)

lemma update_status_absent:
  "incidents s iid = None \<Longrightarrow> update_status s st iid new_status = (s, Inl KeyError)"
  by (simp add: update_status_def)

lemma update_status_present:
  "incidents s iid = Some inc \<Longrightarrow>
     update_status s st iid new_status =
       (s\<lparr>incidents := (incidents s)(iid \<mapsto>
            inc\<lparr>status := new_status,
                timeline := timeline inc @
                  [TimelineEvent_new st iid status_change
                     [(''from'', VStatus (status inc)), (''to'', VStatus new_status)]]\<rparr>)\<rparr>,
        Inr (inc\<lparr>status := new_status,
                 timeline := timeline inc @
                   [TimelineEvent_new st iid status_change
                      [(''from'', VStatus (status inc)), (''to'', VStatus new_status)]]\<rparr>))"
  by (simp add: update_status_def Let_def)

text \<open>
  The store has no operation that removes an incident: an identifier that is a key stays
  one under every operation.
\<close>

lemma store_operations_keep_incidents:
  assumes "incidents s iid \<noteq> None"
  shows "incidents (fst (add_event s j ev)) iid \<noteq> None"
    and "incidents (fst (update_status s st j new_status)) iid \<noteq> None"
    and "incidents (fst (create_incident s now st t sev)) iid \<noteq> None"
  using assms
  by (auto simp: add_event_def update_status_def create_incident_def Let_def
      split: option.splits)

lemma example_store_1:
  "incidents example_store 1 =
     Some \<lparr>inc_id = 1, title = ''Checkout outage'', severity = P1, status = investigating,
           inc_created_at = 0,
           timeline = [\<lparr>event_id = ''e0'', incident_id = 1, etype = system, created_at = 0,
                        payload = [(''message'', VStr ''Incident created: Checkout outage (Severity.P1)'')]\<rparr>]\<rparr>"
  by (simp add: example_store_def create_incident_def IncidentStore_init_def Incident_new_def
      TimelineEvent_new_def Let_def)

lemma example_store_other: "iid \<noteq> 1 \<Longrightarrow> incidents example_store iid = None"
  by (simp add: example_store_def create_incident_def IncidentStore_init_def Let_def)

lemma resolved_store_1:
  "incidents resolved_store 1 =
     Some \<lparr>inc_id = 1, title = ''Checkout outage'', severity = P1, status = resolved,
           inc_created_at = 0,
           timeline = [\<lparr>event_id = ''e0'', incident_id = 1, etype = system, created_at = 0,
                        payload = [(''message'', VStr ''Incident created: Checkout outage (Severity.P1)'')]\<rparr>,
                       \<lparr>event_id = ''e1'', incident_id = 1, etype = status_change, created_at = 1,
                        payload = [(''from'', VStatus investigating), (''to'', VStatus resolved)]\<rparr>]\<rparr>"
  by (simp add: resolved_store_def update_status_present [OF example_store_1] TimelineEvent_new_def)

text \<open>
  C9. \<open>get_incident\<close> returns \<open>None\<close>, and \<open>add_event\<close> and \<open>update_status\<close> raise
  \<open>KeyError\<close>, exactly when the identifier is not a key of the store, and a call that
  raises leaves the store as it was. For a known identifier \<open>add_event\<close> returns the
  incident with the event appended to its timeline, \<open>update_status\<close> returns it with
  the new status and a \<open>status_change\<close> event appended, and in both cases the returned
  incident is the one the store holds afterwards.
\<close>

theorem store_not_found:
  "(get_incident s iid = None \<longleftrightarrow> incidents s iid = None) \<and>
   (snd (add_event s iid ev) = Inl KeyError \<longleftrightarrow> incidents s iid = None) \<and>
   (snd (update_status s st iid new_status) = Inl KeyError \<longleftrightarrow> incidents s iid = None) \<and>
   (incidents s iid = None \<longrightarrow>
      fst (add_event s iid ev) = s \<and> fst (update_status s st iid new_status) = s) \<and>
   (\<forall>inc. incidents s iid = Some inc \<longrightarrow>
      snd (add_event s iid ev) = Inr (inc\<lparr>timeline := timeline inc @ [ev]\<rparr>) \<and>
      incidents (fst (add_event s iid ev)) iid = Some (inc\<lparr>timeline := timeline inc @ [ev]\<rparr>) \<and>
      snd (update_status s st iid new_status) =
        Inr (inc\<lparr>status := new_status,
                 timeline := timeline inc @
                   [TimelineEvent_new st iid status_change
                      [(''from'', VStatus (status inc)), (''to'', VStatus new_status)]]\<rparr>) \<and>
      incidents (fst (update_status s st iid new_status)) iid =
        Some (inc\<lparr>status := new_status,
                  timeline := timeline inc @
                    [TimelineEvent_new st iid status_change
                       [(''from'', VStatus (status inc)), (''to'', VStatus new_status)]]\<rparr>))"
proof (cases "incidents s iid")
  case None
  then show ?thesis
    by (simp add: get_incident_def add_event_absent update_status_absent)
next
  case (Some inc)
  then show ?thesis
    by (simp add: get_incident_def add_event_present update_status_present)
qed

theorem store_not_found_witness:
  "incidents example_store 2 = None \<and>
   get_incident example_store 2 = None \<and>
   snd (add_event example_store 2
          (TimelineEvent_new \<lparr>stamp_id = ''h1'', stamp_time = 1\<rparr> 2 human_update
             [(''message'', VStr ''DB timeout'')])) = Inl KeyError \<and>
   fst (add_event example_store 2
          (TimelineEvent_new \<lparr>stamp_id = ''h1'', stamp_time = 1\<rparr> 2 human_update
             [(''message'', VStr ''DB timeout'')])) = example_store \<and>
   snd (update_status example_store \<lparr>stamp_id = ''e1'', stamp_time = 2\<rparr> 2 monitoring)
     = Inl KeyError \<and>
   fst (update_status example_store \<lparr>stamp_id = ''e1'', stamp_time = 2\<rparr> 2 monitoring)
     = example_store \<and>
   incidents example_store 1 \<noteq> None \<and>
   get_incident example_store 1 \<noteq> None \<and>
   map_option (map etype \<circ> timeline)
     (incidents (fst (add_event example_store 1
          (TimelineEvent_new \<lparr>stamp_id = ''h1'', stamp_time = 1\<rparr> 1 human_update
             [(''message'', VStr ''DB timeout'')]))) 1) = Some [system, human_update] \<and>
   map_option status
     (incidents (fst (update_status example_store \<lparr>stamp_id = ''e1'', stamp_time = 2\<rparr>
                        1 monitoring)) 1)
     = Some monitoring"
proof -
  have absent: "incidents example_store 2 = None"
    by (simp add: example_store_other)
  have present: "incidents example_store 1 \<noteq> None"
    by (simp add: example_store_1)
  show ?thesis
    using store_not_found [of example_store 2
        "TimelineEvent_new \<lparr>stamp_id = ''h1'', stamp_time = 1\<rparr> 2 human_update
           [(''message'', VStr ''DB timeout'')]"
        "\<lparr>stamp_id = ''e1'', stamp_time = 2\<rparr>" monitoring]
      store_not_found [of example_store 1
        "TimelineEvent_new \<lparr>stamp_id = ''h1'', stamp_time = 1\<rparr> 1 human_update
           [(''message'', VStr ''DB timeout'')]"
        "\<lparr>stamp_id = ''e1'', stamp_time = 2\<rparr>" monitoring]
      absent present
    by (simp add: example_store_1 TimelineEvent_new_def)
qed

text \<open>
  C4. \<open>update_status\<close> has no guard on the current status: for a known identifier it
  sets the status to the requested one, whatever the status was, resolved included, and
  appends a \<open>status_change\<close> event from the old status to the new one.
\<close>

theorem update_status_sets_any_status:
  assumes "incidents s iid = Some inc"
  shows "snd (update_status s st iid new_status) =
           Inr (inc\<lparr>status := new_status,
                    timeline := timeline inc @
                      [TimelineEvent_new st iid status_change
                         [(''from'', VStatus (status inc)), (''to'', VStatus new_status)]]\<rparr>) \<and>
         map_option status (incidents (fst (update_status s st iid new_status)) iid)
           = Some new_status"
  using assms by (simp add: update_status_present)

theorem update_status_sets_any_status_witness:
  "map_option status (incidents resolved_store 1) = Some resolved \<and>
   (\<exists>inc'. snd (update_status resolved_store \<lparr>stamp_id = ''e2'', stamp_time = 2\<rparr> 1 investigating)
              = Inr inc' \<and>
       status inc' = investigating \<and>
       map etype (timeline inc') = [system, status_change, status_change] \<and>
       payload (last (timeline inc')) = [(''from'', VStatus resolved), (''to'', VStatus investigating)])"
  using update_status_sets_any_status [OF resolved_store_1,
      of "\<lparr>stamp_id = ''e2'', stamp_time = 2\<rparr>" investigating]
  by (simp add: resolved_store_1 TimelineEvent_new_def)

text \<open>
  Resolved is not terminal in the code: on the store whose incident 1 is resolved, the
  store operation sets the status back to \<open>investigating\<close>, and the status endpoint sets
  it to \<open>monitoring\<close>.
\<close>

theorem update_status_reopens_counterexample:
  "map_option status (incidents resolved_store 1) = Some resolved \<and>
   map_option status
     (incidents (fst (update_status resolved_store \<lparr>stamp_id = ''e2'', stamp_time = 2\<rparr>
                        1 investigating)) 1)
     = Some investigating \<and>
   map_option status
     (incidents (fst (update_incident_status resolved_store \<lparr>stamp_id = ''e2'', stamp_time = 2\<rparr>
                        \<lparr>stamp_id = ''e3'', stamp_time = 2\<rparr> 1 monitoring)) 1)
     = Some monitoring"
  by (simp add: update_incident_status_def update_status_present [OF resolved_store_1]
      resolved_store_1)

section \<open>Properties of the worker\<close>

text \<open>
  The comparison \<open>str(inc.status) == "resolved"\<close> holds for no status: the string of a
  member of \<open>IncidentStatus\<close> starts with the name of the class.
\<close>

lemma str_IncidentStatus_not_resolved: "str_IncidentStatus st \<noteq> ''resolved''"
  by (cases st) simp_all

lemma worker_stage_b_present:
  "incidents s (job_incident_id job) = Some inc \<Longrightarrow>
   worker_stage_b s sent job st_b =
     \<lparr>w_store = s\<lparr>incidents := (incidents s)(job_incident_id job \<mapsto>
                   inc\<lparr>timeline := timeline inc @ [ai_summary_event st_b job]\<rparr>)\<rparr>,
      w_broadcasts = sent @ [(job_incident_id job, ai_summary_event st_b job)],
      w_outcome = Completed\<rparr>"
  by (simp add: worker_stage_b_def add_event_present Let_def)

lemma worker_job_present:
  "incidents s (job_incident_id job) = Some inc \<Longrightarrow>
   worker_job s job st_a during st_b =
     worker_stage_b
       (during (s\<lparr>incidents := (incidents s)(job_incident_id job \<mapsto>
                   inc\<lparr>timeline := timeline inc @ [ai_tag_event st_a job]\<rparr>)\<rparr>))
       [(job_incident_id job, ai_tag_event st_a job)] job st_b"
  by (simp add: worker_job_def get_incident_def add_event_present Let_def
      str_IncidentStatus_not_resolved)

text \<open>A job for an unknown incident is left without an event, a broadcast or a message.\<close>

lemma worker_job_missing:
  "incidents s (job_incident_id job) = None \<Longrightarrow>
   worker_job s job st_a during st_b = \<lparr>w_store = s, w_broadcasts = [], w_outcome = Discarded\<rparr>"
  by (simp add: worker_job_def get_incident_def)

lemma ai_event_fields:
  "etype (ai_tag_event st job) = ai_tag"
  "etype (ai_summary_event st job) = ai_summary"
  "map_of (payload (ai_tag_event st job)) ''source_event_id'' = Some (VStr (human_event_id job))"
  "map_of (payload (ai_summary_event st job)) ''source_event_id'' = Some (VStr (human_event_id job))"
  by (simp_all add: ai_tag_event_def ai_summary_event_def TimelineEvent_new_def)

text \<open>
  C2. A job whose incident exists and is not resolved when the worker checks it appends
  exactly two events to the timeline of that incident, whatever the other tasks do to
  the store while the worker awaits between the stages, as long as the incident is still
  in the store afterwards (the store has no operation that removes one). Stage A appends
  the \<open>ai_tag\<close> event to the timeline as the worker found it; Stage B appends the
  \<open>ai_summary\<close> event to the timeline as the other tasks left it, so that the
  \<open>ai_tag\<close> event comes first, and when the other tasks have only appended events, these
  lie between the two. Both events are broadcast in that order, no other incident is
  changed by the worker, and the payload of each event carries the identifier of the job's
  human update under \<open>source_event_id\<close>.
\<close>

theorem worker_job_two_events:
  assumes "incidents s (job_incident_id job) = Some inc" and "status inc \<noteq> resolved"
    and "incidents
           (during (s\<lparr>incidents := (incidents s)(job_incident_id job \<mapsto>
                       inc\<lparr>timeline := timeline inc @ [ai_tag_event st_a job]\<rparr>)\<rparr>))
           (job_incident_id job) = Some inc_mid"
  shows "w_outcome (worker_job s job st_a during st_b) = Completed \<and>
         incidents (w_store (worker_job s job st_a during st_b)) (job_incident_id job) =
           Some (inc_mid\<lparr>timeline := timeline inc_mid @ [ai_summary_event st_b job]\<rparr>) \<and>
         (\<forall>extra. timeline inc_mid = timeline inc @ [ai_tag_event st_a job] @ extra \<longrightarrow>
            map_option timeline
              (incidents (w_store (worker_job s job st_a during st_b)) (job_incident_id job)) =
            Some (timeline inc @ [ai_tag_event st_a job] @ extra @ [ai_summary_event st_b job])) \<and>
         (\<forall>other. other \<noteq> job_incident_id job \<longrightarrow>
            incidents (w_store (worker_job s job st_a during st_b)) other =
            incidents
              (during (s\<lparr>incidents := (incidents s)(job_incident_id job \<mapsto>
                          inc\<lparr>timeline := timeline inc @ [ai_tag_event st_a job]\<rparr>)\<rparr>))
              other) \<and>
         w_broadcasts (worker_job s job st_a during st_b) =
           [(job_incident_id job, ai_tag_event st_a job),
            (job_incident_id job, ai_summary_event st_b job)] \<and>
         etype (ai_tag_event st_a job) = ai_tag \<and>
         etype (ai_summary_event st_b job) = ai_summary \<and>
         map_of (payload (ai_tag_event st_a job)) ''source_event_id''
           = Some (VStr (human_event_id job)) \<and>
         map_of (payload (ai_summary_event st_b job)) ''source_event_id''
           = Some (VStr (human_event_id job))"
  by (simp add: worker_job_present [OF assms(1)] worker_stage_b_present [OF assms(3)]
      ai_event_fields)

theorem worker_job_two_events_witness:
  "map_option status (incidents example_store (job_incident_id example_job)) = Some investigating \<and>
   w_outcome (worker_job example_store example_job \<lparr>stamp_id = ''e1'', stamp_time = 1\<rparr>
     (\<lambda>s1. fst (add_event s1 1
                   (TimelineEvent_new \<lparr>stamp_id = ''h2'', stamp_time = 2\<rparr> 1 human_update
                      [(''message'', VStr ''still down'')])))
     \<lparr>stamp_id = ''e2'', stamp_time = 3\<rparr>) = Completed \<and>
   map_option (map etype \<circ> timeline)
     (incidents (w_store (worker_job example_store example_job \<lparr>stamp_id = ''e1'', stamp_time = 1\<rparr>
        (\<lambda>s1. fst (add_event s1 1
                      (TimelineEvent_new \<lparr>stamp_id = ''h2'', stamp_time = 2\<rparr> 1 human_update
                         [(''message'', VStr ''still down'')])))
        \<lparr>stamp_id = ''e2'', stamp_time = 3\<rparr>)) (job_incident_id example_job))
     = Some [system, ai_tag, human_update, ai_summary]"
proof -
  let ?inc = "\<lparr>inc_id = 1, title = ''Checkout outage'', severity = P1, status = investigating,
           inc_created_at = 0,
           timeline = [\<lparr>event_id = ''e0'', incident_id = 1, etype = system, created_at = 0,
                        payload = [(''message'', VStr ''Incident created: Checkout outage (Severity.P1)'')]\<rparr>]\<rparr>"
  let ?ev = "TimelineEvent_new \<lparr>stamp_id = ''h2'', stamp_time = 2\<rparr> 1 human_update
               [(''message'', VStr ''still down'')]"
  let ?tag = "ai_tag_event \<lparr>stamp_id = ''e1'', stamp_time = 1\<rparr> example_job"
  have j: "job_incident_id example_job = 1"
    by (simp add: example_job_def)
  have h: "incidents example_store (job_incident_id example_job) = Some ?inc"
    by (simp add: j example_store_1)
  have st: "status ?inc \<noteq> resolved"
    by simp
  have mid: "incidents
       ((\<lambda>s1. fst (add_event s1 1 ?ev))
          (example_store\<lparr>incidents := (incidents example_store)(job_incident_id example_job \<mapsto>
              ?inc\<lparr>timeline := timeline ?inc @ [?tag]\<rparr>)\<rparr>))
       (job_incident_id example_job)
     = Some (?inc\<lparr>timeline := timeline ?inc @ [?tag] @ [?ev]\<rparr>)"
    by (simp add: j add_event_def Let_def)
  show ?thesis
    using worker_job_two_events
        [where s = example_store and job = example_job
           and st_a = "\<lparr>stamp_id = ''e1'', stamp_time = 1\<rparr>"
           and during = "\<lambda>s1. fst (add_event s1 1 ?ev)"
           and st_b = "\<lparr>stamp_id = ''e2'', stamp_time = 3\<rparr>", OF h st mid] h
    by (simp add: j ai_event_fields TimelineEvent_new_def)
qed

text \<open>
  C5. The worker is meant to leave a job whose incident is resolved (the comment of the
  source: stop processing if resolved), but its test compares \<open>str(inc.status)\<close> with
  \<open>"resolved"\<close> and so never holds. On the store whose incident 1 is resolved, the job
  for incident 1 is processed to the end: the \<open>ai_tag\<close> and the \<open>ai_summary\<close> event are
  appended after the \<open>status_change\<close> event, and both are broadcast.
\<close>

theorem worker_resolved_job_processed:
  "map_option status (incidents resolved_store (job_incident_id example_job)) = Some resolved \<and>
   w_outcome (process_job resolved_store example_job
                \<lparr>stamp_id = ''e2'', stamp_time = 2\<rparr> \<lparr>stamp_id = ''e3'', stamp_time = 4\<rparr>) = Completed \<and>
   map_option (map etype \<circ> timeline)
     (incidents (w_store (process_job resolved_store example_job
                \<lparr>stamp_id = ''e2'', stamp_time = 2\<rparr> \<lparr>stamp_id = ''e3'', stamp_time = 4\<rparr>)) 1)
     = Some [system, status_change, ai_tag, ai_summary] \<and>
   map fst (w_broadcasts (process_job resolved_store example_job
                \<lparr>stamp_id = ''e2'', stamp_time = 2\<rparr> \<lparr>stamp_id = ''e3'', stamp_time = 4\<rparr>)) = [1, 1]"
proof -
  have j: "job_incident_id example_job = 1"
    by (simp add: example_job_def)
  have h: "incidents resolved_store (job_incident_id example_job) = incidents resolved_store 1"
    by (simp add: j)
  show ?thesis
    unfolding process_job_def
    by (simp add: worker_job_present [OF h [unfolded resolved_store_1]]
        worker_stage_b_present j resolved_store_1 ai_event_fields)
qed

text \<open>
  C1. The worker looks at the status once, before Stage A, and the store appends whatever
  it is given. A job whose incident exists and is not resolved at that check appends both
  of its events even when the incident is resolved while the worker awaits between the
  two stages: the timeline of the incident, now resolved, ends with the \<open>ai_tag\<close> event,
  the \<open>status_change\<close> event of the resolution and the \<open>ai_summary\<close> event, in this
  order.
\<close>

theorem worker_job_resolved_meanwhile:
  assumes "incidents s (job_incident_id job) = Some inc" and "status inc \<noteq> resolved"
  shows "incidents (w_store (worker_job s job st_a
             (\<lambda>s1. fst (update_status s1 st (job_incident_id job) resolved)) st_b))
           (job_incident_id job) =
         Some (inc\<lparr>status := resolved,
                   timeline := timeline inc @
                     [ai_tag_event st_a job,
                      TimelineEvent_new st (job_incident_id job) status_change
                        [(''from'', VStatus (status inc)), (''to'', VStatus resolved)],
                      ai_summary_event st_b job]\<rparr>) \<and>
         w_outcome (worker_job s job st_a
             (\<lambda>s1. fst (update_status s1 st (job_incident_id job) resolved)) st_b) = Completed"
proof -
  let ?iid = "job_incident_id job"
  let ?s1 = "s\<lparr>incidents := (incidents s)(?iid \<mapsto>
                   inc\<lparr>timeline := timeline inc @ [ai_tag_event st_a job]\<rparr>)\<rparr>"
  have a: "incidents ?s1 ?iid = Some (inc\<lparr>timeline := timeline inc @ [ai_tag_event st_a job]\<rparr>)"
    by simp
  let ?inc2 = "inc\<lparr>status := resolved,
                   timeline := timeline inc @
                     [ai_tag_event st_a job,
                      TimelineEvent_new st ?iid status_change
                        [(''from'', VStatus (status inc)), (''to'', VStatus resolved)]]\<rparr>"
  have b: "incidents (fst (update_status ?s1 st ?iid resolved)) ?iid = Some ?inc2"
    by (simp add: update_status_present [OF a])
  show ?thesis
    by (simp add: worker_job_present [OF assms(1)] worker_stage_b_present [OF b])
qed

theorem worker_job_resolved_meanwhile_witness:
  "map_option status (incidents example_store (job_incident_id example_job)) = Some investigating \<and>
   map_option (\<lambda>i. (status i, map etype (timeline i)))
     (incidents (w_store (worker_job example_store example_job \<lparr>stamp_id = ''e1'', stamp_time = 1\<rparr>
        (\<lambda>s1. fst (update_status s1 \<lparr>stamp_id = ''e2'', stamp_time = 2\<rparr>
                      (job_incident_id example_job) resolved))
        \<lparr>stamp_id = ''e3'', stamp_time = 3\<rparr>)) (job_incident_id example_job))
     = Some (resolved, [system, ai_tag, status_change, ai_summary])"
proof -
  have j: "job_incident_id example_job = 1"
    by (simp add: example_job_def)
  have h: "incidents example_store (job_incident_id example_job) =
     Some \<lparr>inc_id = 1, title = ''Checkout outage'', severity = P1, status = investigating,
           inc_created_at = 0,
           timeline = [\<lparr>event_id = ''e0'', incident_id = 1, etype = system, created_at = 0,
                        payload = [(''message'', VStr ''Incident created: Checkout outage (Severity.P1)'')]\<rparr>]\<rparr>"
    by (simp add: j example_store_1)
  show ?thesis
    using worker_job_resolved_meanwhile [OF h, of "\<lparr>stamp_id = ''e1'', stamp_time = 1\<rparr>"
        "\<lparr>stamp_id = ''e2'', stamp_time = 2\<rparr>" "\<lparr>stamp_id = ''e3'', stamp_time = 3\<rparr>"] h
    by (simp add: ai_event_fields TimelineEvent_new_def)
qed

text \<open>
  An event of type \<open>ai_summary\<close> is appended to a resolved incident. Incident 1 is under
  investigation when the worker checks it; the store that Stage B finds, after the
  \<open>ai_tag\<close> event and the resolution, holds the incident as resolved with three events;
  Stage B appends the fourth.
\<close>

theorem worker_appends_after_resolution_counterexample:
  "map_option status (incidents example_store 1) = Some investigating \<and>
   map_option (\<lambda>i. (status i, map etype (timeline i)))
     (incidents
        (fst (update_status
                (fst (add_event example_store 1
                        (ai_tag_event \<lparr>stamp_id = ''e1'', stamp_time = 1\<rparr> example_job)))
                \<lparr>stamp_id = ''e2'', stamp_time = 2\<rparr> 1 resolved)) 1)
     = Some (resolved, [system, ai_tag, status_change]) \<and>
   map_option (\<lambda>i. (status i, map etype (timeline i)))
     (incidents
        (w_store (worker_job example_store example_job \<lparr>stamp_id = ''e1'', stamp_time = 1\<rparr>
           (\<lambda>s1. fst (update_status s1 \<lparr>stamp_id = ''e2'', stamp_time = 2\<rparr> 1 resolved))
           \<lparr>stamp_id = ''e3'', stamp_time = 3\<rparr>)) 1)
     = Some (resolved, [system, ai_tag, status_change, ai_summary])"
proof -
  have j: "job_incident_id example_job = 1"
    by (simp add: example_job_def)
  have h: "incidents example_store (job_incident_id example_job) = incidents example_store 1"
    by (simp add: j)
  show ?thesis
    by (simp add: worker_job_present [OF h [unfolded example_store_1]] j example_store_1
        update_status_def worker_stage_b_def add_event_def Let_def ai_event_fields
        TimelineEvent_new_def)
qed

text \<open>
  C3. The summary of Stage B is the label \<open>Summary: \<close> followed by the first 160
  characters of the message and nothing else: a message of at most 160 characters, one of
  50 among them, appears whole after the label; for a longer one, one of 500 among them,
  the summary has 169 characters and no marker follows the prefix.
\<close>

theorem stage_b_summary_prefix:
  "stage_b_summary msg = ''Summary: '' @ take 160 msg \<and>
   (length msg \<le> 160 \<longrightarrow> stage_b_summary msg = ''Summary: '' @ msg) \<and>
   (length msg > 160 \<longrightarrow> length (stage_b_summary msg) = 169 \<and>
      (\<forall>marker. marker \<noteq> [] \<longrightarrow> stage_b_summary msg \<noteq> ''Summary: '' @ take 160 msg @ marker))"
  by (simp add: stage_b_summary_def)

theorem stage_b_summary_prefix_witness:
  "length (replicate 50 CHR ''b'') \<le> 160 \<and>
   stage_b_summary (replicate 50 CHR ''b'') = ''Summary: '' @ replicate 50 CHR ''b'' \<and>
   length (replicate 500 CHR ''a'') > 160 \<and>
   length (stage_b_summary (replicate 500 CHR ''a'')) = 169 \<and>
   stage_b_summary (replicate 500 CHR ''a'') \<noteq> ''Summary: '' @ take 160 (replicate 500 CHR ''a'') @ ''...''"
  using stage_b_summary_prefix [of "replicate 50 CHR ''b''"]
        stage_b_summary_prefix [of "replicate 500 CHR ''a''"]
  by simp

text \<open>
  For a message of 500 characters the summary of Stage B ends with the 160th character of
  the message; the marker \<open>...\<close> is what \<open>fallback_summary\<close> appends, after 140
  characters, and the worker does not call it.
\<close>

theorem stage_b_summary_no_marker_counterexample:
  "length (replicate 500 CHR ''a'') = 500 \<and>
   stage_b_summary (replicate 500 CHR ''a'') = ''Summary: '' @ replicate 160 CHR ''a'' \<and>
   stage_b_summary (replicate 500 CHR ''a'')
     \<noteq> ''Summary: '' @ take 160 (replicate 500 CHR ''a'') @ ''...''"
  by (simp add: stage_b_summary_def)

lemma fallback_summary_marker:
  "fallback_summary (replicate 500 CHR ''a'') None [] =
     ''Incident update: '' @ replicate 140 CHR ''a'' @ ''...''"
  by code_simp

lemma stage_a_tags_refines: "stage_a_tags msg = spec_tags msg"
  by (simp add: stage_a_tags_def spec_tags_def vocabulary_def Let_def)

text \<open>
  C6. The message \<open>DB timeout on checkout-service, latency spiking\<close> yields the tags
  database, timeout, payments and latency in this order. For every message the tags of
  the worker are those of the specification's scan of the vocabulary, in the order of the
  vocabulary; they are exactly \<open>[general]\<close> if and only if the lower-cased message
  contains none of the six keywords; and they depend on the message through its
  lower-cased form only.
\<close>

theorem stage_a_tags_vocabulary_order:
  "stage_a_tags ''DB timeout on checkout-service, latency spiking''
     = [''database'', ''timeout'', ''payments'', ''latency''] \<and>
   stage_a_tags msg = spec_tags msg \<and>
   (stage_a_tags msg = [''general''] \<longleftrightarrow>
      \<not> sublist ''db'' (lower msg) \<and> \<not> sublist ''database'' (lower msg) \<and>
      \<not> sublist ''timeout'' (lower msg) \<and> \<not> sublist ''payment'' (lower msg) \<and>
      \<not> sublist ''checkout'' (lower msg) \<and> \<not> sublist ''latency'' (lower msg)) \<and>
   (lower msg = lower msg' \<longrightarrow> stage_a_tags msg = stage_a_tags msg')"
proof -
  have ex: "stage_a_tags ''DB timeout on checkout-service, latency spiking''
     = [''database'', ''timeout'', ''payments'', ''latency'']"
    by code_simp
  have gen: "stage_a_tags msg = [''general''] \<longleftrightarrow>
      \<not> sublist ''db'' (lower msg) \<and> \<not> sublist ''database'' (lower msg) \<and>
      \<not> sublist ''timeout'' (lower msg) \<and> \<not> sublist ''payment'' (lower msg) \<and>
      \<not> sublist ''checkout'' (lower msg) \<and> \<not> sublist ''latency'' (lower msg)"
    by (simp add: stage_a_tags_def Let_def)
  have ci: "lower msg = lower msg' \<longrightarrow> stage_a_tags msg = stage_a_tags msg'"
    by (simp add: stage_a_tags_def)
  show ?thesis
    by (rule conjI [OF ex conjI [OF stage_a_tags_refines conjI [OF gen ci]]])
qed

theorem stage_a_tags_vocabulary_order_witness:
  "(\<not> sublist ''db'' (lower ''all good here'') \<and> \<not> sublist ''database'' (lower ''all good here'') \<and>
    \<not> sublist ''timeout'' (lower ''all good here'') \<and> \<not> sublist ''payment'' (lower ''all good here'') \<and>
    \<not> sublist ''checkout'' (lower ''all good here'') \<and> \<not> sublist ''latency'' (lower ''all good here'')) \<and>
   lower ''all good here'' = lower ''ALL Good Here'' \<and>
   stage_a_tags ''all good here'' = [''general''] \<and>
   stage_a_tags ''ALL Good Here'' = [''general'']"
proof -
  have h: "\<not> sublist ''db'' (lower ''all good here'') \<and> \<not> sublist ''database'' (lower ''all good here'') \<and>
    \<not> sublist ''timeout'' (lower ''all good here'') \<and> \<not> sublist ''payment'' (lower ''all good here'') \<and>
    \<not> sublist ''checkout'' (lower ''all good here'') \<and> \<not> sublist ''latency'' (lower ''all good here'')"
    by code_simp
  have l: "lower ''all good here'' = lower ''ALL Good Here''"
    by code_simp
  note t = stage_a_tags_vocabulary_order [of "''all good here''" "''ALL Good Here''"]
  have g1: "stage_a_tags ''all good here'' = [''general'']"
    by (rule iffD2 [OF conjunct1 [OF conjunct2 [OF conjunct2 [OF t]]] h])
  have g2: "stage_a_tags ''ALL Good Here'' = [''general'']"
    using mp [OF conjunct2 [OF conjunct2 [OF conjunct2 [OF t]]] l] g1 by (simp only:)
  show ?thesis
    by (rule conjI [OF h conjI [OF l conjI [OF g1 g2]]])
qed

section \<open>Properties of the room manager\<close>

lemma send_loop_eq:
  "send_loop send m sockets =
     (map (\<lambda>ws. (ws, m))
        (filter (\<lambda>ws. send ws = Delivered) (takeWhile (\<lambda>ws. send ws \<noteq> Aborted) sockets)),
      filter (\<lambda>ws. send ws = Failed) (takeWhile (\<lambda>ws. send ws \<noteq> Aborted) sockets),
      \<exists>ws \<in> set sockets. send ws = Aborted)"
proof (induction sockets)
  case Nil
  show ?case by simp
next
  case (Cons ws rest)
  show ?case
    by (cases "send ws") (simp_all add: Cons.IH)
qed

lemma send_loop_no_abort:
  assumes "\<forall>ws \<in> set sockets. send ws \<noteq> Aborted"
  shows "send_loop send m sockets =
     (map (\<lambda>ws. (ws, m)) (filter (\<lambda>ws. send ws = Delivered) sockets),
      filter (\<lambda>ws. send ws = Failed) sockets, False)"
proof -
  have tw: "takeWhile (\<lambda>ws. send ws \<noteq> Aborted) sockets = sockets"
    using assms by (simp add: takeWhile_eq_all_conv)
  have none: "\<not> (\<exists>ws \<in> set sockets. send ws = Aborted)"
    using assms by simp
  show ?thesis
    by (simp only: send_loop_eq tw none)
qed

lemma discard_loop_eq:
  "discard_loop rooms iid dead =
     (case rooms iid of None \<Rightarrow> rooms | Some r \<Rightarrow> rooms(iid \<mapsto> r - set dead))"
proof (induction dead arbitrary: rooms)
  case Nil
  then show ?case by (auto split: option.splits)
next
  case (Cons ws rest)
  have d: "r - {ws} - set rest = r - insert ws (set rest)" for r
    by blast
  show ?case
    by (cases "rooms iid") (simp_all add: Cons.IH d)
qed

lemma prune_dead_same:
  "prune_dead rooms iid dead iid =
     (case rooms iid of
        None \<Rightarrow> None
      | Some r \<Rightarrow> if r - set dead = {} then None else Some (r - set dead))"
  by (simp add: prune_dead_def discard_loop_eq Let_def split: option.splits)

lemma prune_dead_other:
  "other \<noteq> iid \<Longrightarrow> prune_dead rooms iid dead other = rooms other"
  by (simp add: prune_dead_def discard_loop_eq Let_def split: option.splits)

lemma room_members_prune_dead:
  "room_members (prune_dead rooms iid dead) j =
     (if j = iid then room_members rooms iid - set dead else room_members rooms j)"
  by (simp add: room_members_def prune_dead_same prune_dead_other split: option.splits)

lemma room_members_connect:
  "room_members (connect rooms iid ws) j =
     (if j = iid then insert ws (room_members rooms iid) else room_members rooms j)"
  by (simp add: room_members_def connect_def split: option.splits)

lemma room_members_disconnect:
  "room_members (disconnect rooms iid ws) j =
     (if j = iid then room_members rooms iid - {ws} else room_members rooms j)"
  by (simp add: room_members_def disconnect_def Let_def split: option.splits)

lemma room_members_apply_room_op:
  "ws \<in> room_members (apply_room_op rooms op) iid \<Longrightarrow>
     ws \<in> room_members rooms iid \<or> op = Connect iid ws"
  by (cases op)
    (auto simp: room_members_connect room_members_disconnect room_members_prune_dead
      split: if_splits)

lemma room_members_foldl:
  "ws \<in> room_members (foldl apply_room_op rooms ops) iid \<Longrightarrow>
     ws \<in> room_members rooms iid \<or> Connect iid ws \<in> set ops"
proof (induction ops arbitrary: rooms)
  case Nil
  then show ?case by simp
next
  case (Cons op ops)
  from Cons.prems have "ws \<in> room_members (foldl apply_room_op (apply_room_op rooms op) ops) iid"
    by simp
  from Cons.IH [OF this] show ?case
    using room_members_apply_room_op [of ws rooms op iid] by auto
qed

lemma broadcast_sent:
  "b_sent (broadcast rooms send sockets during iid m) = fst (send_loop send m sockets)"
proof (cases "sockets = []")
  case True
  then show ?thesis by (simp add: broadcast_def)
next
  case False
  then show ?thesis
    by (cases "send_loop send m sockets") (simp add: broadcast_def Let_def)
qed

lemma broadcast_sent_subset:
  "set (b_sent (broadcast rooms send sockets during iid m))
     \<subseteq> (\<lambda>ws. (ws, m)) ` {ws \<in> set sockets. send ws = Delivered}"
proof
  fix p
  assume "p \<in> set (b_sent (broadcast rooms send sockets during iid m))"
  then obtain ws where p: "p = (ws, m)" and d: "send ws = Delivered"
    and t: "ws \<in> set (takeWhile (\<lambda>ws. send ws \<noteq> Aborted) sockets)"
    by (auto simp: broadcast_sent send_loop_eq)
  from t have "ws \<in> set sockets"
    by (rule set_takeWhileD [THEN conjunct1])
  with p d show "p \<in> (\<lambda>ws. (ws, m)) ` {ws \<in> set sockets. send ws = Delivered}"
    by simp
qed

lemma broadcast_empty:
  "sockets = [] \<Longrightarrow>
   broadcast rooms send sockets during iid m = \<lparr>b_rooms = rooms, b_sent = [], b_raised = False\<rparr>"
  by (simp add: broadcast_def)

lemma broadcast_no_abort:
  assumes "sockets \<noteq> []" and "\<forall>ws \<in> set sockets. send ws \<noteq> Aborted"
  shows "broadcast rooms send sockets during iid m =
     \<lparr>b_rooms = (if filter (\<lambda>ws. send ws = Failed) sockets \<noteq> []
                 then prune_dead (during rooms) iid (filter (\<lambda>ws. send ws = Failed) sockets)
                 else during rooms),
      b_sent = map (\<lambda>ws. (ws, m)) (filter (\<lambda>ws. send ws = Delivered) sockets),
      b_raised = False\<rparr>"
  using assms(1) by (simp add: broadcast_def send_loop_no_abort [OF assms(2)])

lemma broadcast_abort:
  assumes "\<exists>ws \<in> set sockets. send ws = Aborted"
  shows "b_raised (broadcast rooms send sockets during iid m) \<and>
         b_rooms (broadcast rooms send sockets during iid m) = during rooms"
proof -
  from assms have "sockets \<noteq> []"
    by auto
  with assms show ?thesis
    by (simp add: broadcast_def send_loop_eq)
qed

lemma example_rooms_1: "example_rooms 1 = Some {10, 11}"
  by (auto simp: example_rooms_def connect_def WebSocketRoomManager_init_def)

lemma example_rooms_2: "example_rooms 2 = Some {12}"
  by (simp add: example_rooms_def connect_def WebSocketRoomManager_init_def)




lemma no_empty_room_connect: "no_empty_room rooms \<Longrightarrow> no_empty_room (connect rooms iid ws)"
  by (auto simp: no_empty_room_def connect_def split: option.splits)

lemma no_empty_room_disconnect: "no_empty_room rooms \<Longrightarrow> no_empty_room (disconnect rooms iid ws)"
  by (auto simp: no_empty_room_def disconnect_def Let_def split: option.splits)

lemma no_empty_room_prune_dead: "no_empty_room rooms \<Longrightarrow> no_empty_room (prune_dead rooms iid dead)"
  unfolding no_empty_room_def
proof
  fix j
  assume a: "\<forall>i. rooms i \<noteq> Some {}"
  show "prune_dead rooms iid dead j \<noteq> Some {}"
  proof (cases "j = iid")
    case True
    then show ?thesis by (simp add: prune_dead_same split: option.splits)
  next
    case False
    with a show ?thesis by (simp add: prune_dead_other)
  qed
qed

lemma no_empty_room_apply: "no_empty_room rooms \<Longrightarrow> no_empty_room (apply_room_op rooms op)"
  by (cases op) (simp_all add: no_empty_room_connect no_empty_room_disconnect no_empty_room_prune_dead)

lemma no_empty_room_foldl:
  "no_empty_room rooms \<Longrightarrow> no_empty_room (foldl apply_room_op rooms ops)"
  by (induction ops arbitrary: rooms) (simp_all add: no_empty_room_apply)

lemma no_empty_room_init: "no_empty_room WebSocketRoomManager_init"
  by (simp add: no_empty_room_def WebSocketRoomManager_init_def)

text \<open>
  C8. In every state that the room manager reaches from its initial state by
  registrations, removals and pruning passes, a room that is present in the dict has at
  least one connection.
\<close>

theorem rooms_never_empty:
  "run_room_ops ops iid = Some r \<Longrightarrow> r \<noteq> {}"
  using no_empty_room_foldl [OF no_empty_room_init, of ops]
  by (auto simp: run_room_ops_def no_empty_room_def)

theorem rooms_never_empty_witness:
  "run_room_ops [Connect 1 (10::nat), Connect 1 11, Connect 2 12, Disconnect 1 10, Prune 2 [12]] 1
     = Some {11} \<and> {11::nat} \<noteq> {} \<and>
   run_room_ops [Connect 1 (10::nat), Connect 1 11, Connect 2 12, Disconnect 1 10, Prune 2 [12]] 2
     = None"
proof -
  have a: "run_room_ops [Connect 1 (10::nat), Connect 1 11, Connect 2 12, Disconnect 1 10, Prune 2 [12]] 1
     = Some {11}"
    by (auto simp: run_room_ops_def WebSocketRoomManager_init_def connect_def disconnect_def
        prune_dead_def Let_def)
  have b: "run_room_ops [Connect 1 (10::nat), Connect 1 11, Connect 2 12, Disconnect 1 10, Prune 2 [12]] 2
     = None"
    by (simp add: run_room_ops_def WebSocketRoomManager_init_def connect_def disconnect_def
        prune_dead_def Let_def)
  from rooms_never_empty [OF a] a b show ?thesis by simp
qed

end
